theory Spec2Isabelle
  imports Main "HOL-Library.Word"
begin

section \<open>Go values used by the catalog service\<close>

subsection \<open>Errors\<close>

text \<open>
  A Go \<open>error\<close> is either \<open>nil\<close> (modelled as \<open>None\<close> of an option) or an error value.
  The two gorm sentinels the repositories test with \<open>errors.Is\<close> are constructors of their
  own; \<open>ErrorNew s\<close> is an error made by \<open>errors.New(s)\<close>, and \<open>Wrapped s e\<close> an error with
  message \<open>s\<close> that unwraps to \<open>e\<close> (as \<open>fmt.Errorf("...%w", e)\<close> builds).
\<close>

datatype error =
    ErrRecordNotFound
  | ErrDuplicatedKey
  | ErrorNew string
  | Wrapped string error

text \<open>The method \<open>Error()\<close>: the message of an error.\<close>

fun Error :: "error \<Rightarrow> string" where
  "Error ErrRecordNotFound = ''record not found''"
| "Error ErrDuplicatedKey = ''duplicated key not allowed''"
| "Error (ErrorNew s) = s"
| "Error (Wrapped s e) = s"

text \<open>\<open>errors.Is(err, target)\<close> for a sentinel target: identity along the unwrap chain.
  Two \<open>errors.New\<close> values are never identical to a sentinel, whatever their message.\<close>

fun errors_Is :: "error \<Rightarrow> error \<Rightarrow> bool" where
  "errors_Is (Wrapped s e) target = errors_Is e target"
| "errors_Is (ErrorNew s) target = False"
| "errors_Is e target = (e = target)"

subsection \<open>Exact decimals (github.com/shopspring/decimal)\<close>

text \<open>
  The library's \<open>Decimal\<close> is the struct \<open>{value *big.Int; exp int32}\<close>, denoting
  \<open>value * 10 ^ exp\<close>. A pointer is modelled by the address it holds together with the
  integer stored at that address; \<open>None\<close> is the nil pointer of the zero-valued struct
  \<open>Decimal{}\<close>, which the library reads as the integer 0.
\<close>

type_synonym addr = nat

record Decimal =
  d_value :: "(addr \<times> int) option"
  d_exp :: int

text \<open>The package variable \<open>decimal.Zero = New(0, 1)\<close>: one \<open>big.Int\<close>, allocated once
  when the package is initialised, here at address \<open>Zero_addr\<close>; every later allocation
  returns another address.\<close>

definition Zero_addr :: addr where
  "Zero_addr = 0"

definition Zero :: Decimal where
  "Zero = \<lparr>d_value = Some (Zero_addr, 0), d_exp = 1\<rparr>"

text \<open>The zero-valued struct \<open>Decimal{}\<close>, as in \<open>models.Product{}\<close>.\<close>

definition Decimal_zero_value :: Decimal where
  "Decimal_zero_value = \<lparr>d_value = None, d_exp = 0\<rparr>"

text \<open>Go's \<open>==\<close> on two structs compares field by field; on the pointer field it compares
  the addresses, not the integers they point to.\<close>

definition go_eq :: "Decimal \<Rightarrow> Decimal \<Rightarrow> bool" where
  "go_eq d1 d2 = (map_option fst (d_value d1) = map_option fst (d_value d2) \<and> d_exp d1 = d_exp d2)"

text \<open>The integer a Decimal's pointer leads to (\<open>ensureInitialized\<close> puts 0 behind nil).\<close>

definition coefficient :: "Decimal \<Rightarrow> int" where
  "coefficient d = (case d_value d of None \<Rightarrow> 0 | Some (a, v) \<Rightarrow> v)"

text \<open>\<open>Cmp\<close> brings both numbers to the smaller exponent (\<open>RescalePair\<close>) and compares the
  integers: -1, 0 or 1.\<close>

definition int_Cmp :: "int \<Rightarrow> int \<Rightarrow> int" where
  "int_Cmp x y = (if x < y then - 1 else if x = y then 0 else 1)"

definition Cmp :: "Decimal \<Rightarrow> Decimal \<Rightarrow> int" where
  "Cmp d d2 =
     (if d_exp d = d_exp d2 then int_Cmp (coefficient d) (coefficient d2)
      else if d_exp d < d_exp d2
        then int_Cmp (coefficient d) (coefficient d2 * 10 ^ nat (d_exp d2 - d_exp d))
        else int_Cmp (coefficient d * 10 ^ nat (d_exp d - d_exp d2)) (coefficient d2))"

definition GreaterThan :: "Decimal \<Rightarrow> Decimal \<Rightarrow> bool" where
  "GreaterThan d d2 = (Cmp d d2 = 1)"

definition Equal :: "Decimal \<Rightarrow> Decimal \<Rightarrow> bool" where
  "Equal d d2 = (Cmp d d2 = 0)"

subsection \<open>Parsing numbers (strconv, decimal.NewFromString)\<close>

text \<open>Callers only test \<open>err == nil\<close>, so a parse error of any kind is \<open>None\<close>.\<close>

definition is_digit :: "char \<Rightarrow> bool" where
  "is_digit c = (c \<in> set ''0123456789'')"

definition digit_val :: "char \<Rightarrow> int" where
  "digit_val c = int (of_char c) - 48"

text \<open>The digit loop \<open>n = n*10 + int(ch - '0')\<close>.\<close>

fun digits_loop :: "int \<Rightarrow> string \<Rightarrow> int" where
  "digits_loop n [] = n"
| "digits_loop n (ch # s) = digits_loop (n * 10 + digit_val ch) s"

text \<open>An optional sign and at least one decimal digit, nothing else: the syntax that
  \<open>strconv.ParseInt(s, 10, _)\<close> and \<open>big.Int.SetString(s, 10)\<close> accept.\<close>

definition parse_signed :: "string \<Rightarrow> int option" where
  "parse_signed s =
     (case s of
        [] \<Rightarrow> None
      | c # cs \<Rightarrow>
          (let neg = (c = CHR ''-'');
               ds = (if c = CHR ''-'' \<or> c = CHR ''+'' then cs else s)
           in if ds = [] \<or> \<not> list_all is_digit ds then None
              else Some (if neg then - digits_loop 0 ds else digits_loop 0 ds)))"

text \<open>\<open>strconv.ParseInt(s, 10, bitSize)\<close>: a value outside the signed range of
  \<open>bitSize\<close> bits is a range error.\<close>

definition ParseInt :: "string \<Rightarrow> nat \<Rightarrow> int option" where
  "ParseInt s bitSize =
     (case parse_signed s of
        None \<Rightarrow> None
      | Some v \<Rightarrow> if - (2 ^ (bitSize - 1)) \<le> v \<and> v < 2 ^ (bitSize - 1) then Some v else None)"

text \<open>\<open>strconv.Atoi\<close>, with Go's \<open>int\<close> of 64 bits.\<close>

definition Atoi :: "string \<Rightarrow> int option" where
  "Atoi s = ParseInt s 64"

text \<open>
  \<open>decimal.NewFromString\<close>: an exponent after the first \<open>e\<close> or \<open>E\<close> (an int32), at most
  one point, the remaining characters read as one signed integer, and the exponent
  lowered by the number of characters after the point. The first argument is the address
  of the \<open>big.Int\<close> the call allocates.
\<close>

definition is_e :: "char \<Rightarrow> bool" where
  "is_e c = (c = CHR ''e'' \<or> c = CHR ''E'')"

definition NewFromString :: "addr \<Rightarrow> string \<Rightarrow> Decimal option" where
  "NewFromString a input =
     (let mantissa = takeWhile (\<lambda>c. \<not> is_e c) input;
          rest = dropWhile (\<lambda>c. \<not> is_e c) input;
          expInt = (if rest = [] then Some 0 else ParseInt (tl rest) 32)
      in case expInt of
           None \<Rightarrow> None
         | Some e0 \<Rightarrow>
             if 1 < length (filter (\<lambda>c. c = CHR ''.'') mantissa) then None
             else
               (let intPart = takeWhile (\<lambda>c. c \<noteq> CHR ''.'') mantissa;
                    fracPart = drop (Suc (length intPart)) mantissa;
                    intString = intPart @ fracPart;
                    e = e0 - int (length fracPart)
                in case parse_signed intString of
                     None \<Rightarrow> None
                   | Some v \<Rightarrow>
                       if e < - (2 ^ 31) \<or> 2 ^ 31 - 1 < e then None
                       else Some \<lparr>d_value = Some (a, v), d_exp = e\<rparr>))"

section \<open>Request validation (package catalog)\<close>

record SearchFilters =
  Offset :: int
  Limit :: int
  Category :: string
  PriceLessThan :: "Decimal option"

text \<open>\<open>validateProductFilters\<close>: the four raw query parameters to bounded filters. The
  first argument is the address \<open>decimal.NewFromString\<close> allocates at.\<close>

definition validateProductFilters ::
  "addr \<Rightarrow> string \<Rightarrow> string \<Rightarrow> string \<Rightarrow> string \<Rightarrow> SearchFilters" where
  "validateProductFilters a offset limit priceLimit category =
     (let filters0 = \<lparr>Offset = 0, Limit = 10, Category = [], PriceLessThan = None\<rparr>;
          filters1 =
            (if offset \<noteq> [] then
               (case Atoi offset of
                  Some o' \<Rightarrow> if o' \<ge> 0 then filters0\<lparr>Offset := o'\<rparr> else filters0
                | None \<Rightarrow> filters0)
             else filters0);
          filters2 =
            (if limit \<noteq> [] then
               (case Atoi limit of
                  Some l \<Rightarrow> if l > 0 \<and> l \<le> 100 then filters1\<lparr>Limit := l\<rparr> else filters1
                | None \<Rightarrow> filters1)
             else filters1);
          filters3 =
            (if priceLimit \<noteq> [] then
               (case NewFromString a priceLimit of
                  Some p \<Rightarrow>
                    if GreaterThan p Zero then filters2\<lparr>PriceLessThan := Some p\<rparr> else filters2
                | None \<Rightarrow> filters2)
             else filters2);
          filters4 = (if category \<noteq> [] then filters3\<lparr>Category := category\<rparr> else filters3)
      in filters4)"

subsection \<open>The product code pattern\<close>

text \<open>
  The fragment of Go's regular expressions that the pattern \<open>^PROD\d{3}$\<close> is written in:
  the two text anchors, a literal byte, the class \<open>\d\<close> of ASCII digits, concatenation
  and counted repetition.
\<close>

datatype regex =
    BeginText
  | EndText
  | Lit char
  | Digit
  | Seq regex regex
  | Repeat nat regex

text \<open>\<open>ends r s i\<close>: every position at which a match of \<open>r\<close> that starts at position
  \<open>i\<close> of the text \<open>s\<close> can end.\<close>

fun iterate_ends :: "nat \<Rightarrow> (nat \<Rightarrow> nat list) \<Rightarrow> nat \<Rightarrow> nat list" where
  "iterate_ends 0 step i = [i]"
| "iterate_ends (Suc n) step i = concat (map (iterate_ends n step) (step i))"

fun ends :: "regex \<Rightarrow> string \<Rightarrow> nat \<Rightarrow> nat list" where
  "ends BeginText s i = (if i = 0 then [i] else [])"
| "ends EndText s i = (if i = length s then [i] else [])"
| "ends (Lit c) s i = (if i < length s \<and> s ! i = c then [Suc i] else [])"
| "ends Digit s i = (if i < length s \<and> is_digit (s ! i) then [Suc i] else [])"
| "ends (Seq r1 r2) s i = concat (map (ends r2 s) (ends r1 s i))"
| "ends (Repeat n r) s i = iterate_ends n (ends r s) i"

text \<open>\<open>regexp.MatchString\<close>: whether the text contains a match, starting anywhere. The
  error is that of compiling the pattern; a pattern of this fragment always compiles.\<close>

definition MatchString :: "regex \<Rightarrow> string \<Rightarrow> bool \<times> error option" where
  "MatchString pattern s = (list_ex (\<lambda>i. ends pattern s i \<noteq> []) [0 ..< Suc (length s)], None)"

text \<open>The pattern \<open>^PROD\d{3}$\<close>.\<close>

definition pattern :: regex where
  "pattern =
     Seq BeginText
       (Seq (Lit CHR ''P'') (Seq (Lit CHR ''R'') (Seq (Lit CHR ''O'') (Seq (Lit CHR ''D'')
         (Seq (Repeat 3 Digit) EndText)))))"

definition validateProductCode :: "string \<Rightarrow> bool" where
  "validateProductCode code =
     (if code = [] then False
      else (case MatchString pattern code of
              (matched, Some err) \<Rightarrow> False
            | (matched, None) \<Rightarrow> matched))"

section \<open>Domain entities (package models)\<close>

text \<open>
  \<open>models.Category\<close> is declared with the fields \<open>ID\<close>, \<open>Code\<close>, \<open>Name\<close> and the
  back-reference \<open>Products\<close>, which no modelled function reads and which is left out.
  The declarations of \<open>models.Product\<close> and \<open>models.Variant\<close> are not among the sources;
  their fields are the ones the handler reads and its tests set. Fields carry a prefix,
  since the three structs share field names.
\<close>

record models_Category =
  cat_ID :: nat
  cat_Code :: string
  cat_Name :: string

record models_Variant =
  var_ID :: nat
  var_Name :: string
  var_SKU :: string
  var_Price :: Decimal
  var_ProductID :: nat

record models_Product =
  prod_ID :: nat
  prod_Code :: string
  prod_Price :: Decimal
  prod_Category :: models_Category
  prod_Variants :: "models_Variant list"

text \<open>The zero value \<open>models.Product{}\<close>. A nil slice and an empty slice both have length
  0 and range over nothing, so \<open>Variants\<close> is a list.\<close>

definition Product_zero_value :: models_Product where
  "Product_zero_value =
     \<lparr>prod_ID = 0, prod_Code = [], prod_Price = Decimal_zero_value,
      prod_Category = \<lparr>cat_ID = 0, cat_Code = [], cat_Name = []\<rparr>,
      prod_Variants = []\<rparr>"

section \<open>Response assembly (package catalog)\<close>

text \<open>A \<open>float64\<close> is its 64-bit pattern; the all-zero pattern is \<open>+0.0\<close>, the zero value
  that \<open>make\<close> fills a slice with. \<open>Decimal.InexactFloat64\<close> is library code over floating
  point and is a parameter of the assembler.\<close>

type_synonym float64 = "64 word"

record catalog_Product =
  dto_Code :: string
  dto_Price :: float64
  dto_Category :: string

text \<open>The field \<open>Variants\<close> is a slice that \<open>prepareResponse\<close> leaves nil (\<open>None\<close>) or sets
  to a slice made by \<open>make\<close> (\<open>Some\<close>, possibly of length 0).\<close>

record catalog_Response =
  Products :: "catalog_Product list"
  ProductsAvailable :: int
  Variants :: "models_Variant list option"

definition catalog_Product_zero_value :: catalog_Product where
  "catalog_Product_zero_value = \<lparr>dto_Code = [], dto_Price = 0, dto_Category = []\<rparr>"

text \<open>The first loop of \<open>prepareResponse\<close>, \<open>for i, p := range dbProducts\<close>: the state is
  \<open>respProducts\<close> and \<open>uniqueProductCount\<close>, and \<open>i\<close> is the index of the next product.\<close>

fun products_loop ::
  "(Decimal \<Rightarrow> float64) \<Rightarrow> models_Product list \<Rightarrow> nat \<Rightarrow> catalog_Product list \<times> int
     \<Rightarrow> catalog_Product list \<times> int" where
  "products_loop InexactFloat64 [] i (respProducts, uniqueProductCount) =
     (respProducts, uniqueProductCount)"
| "products_loop InexactFloat64 (p # rest) i (respProducts, uniqueProductCount) =
     products_loop InexactFloat64 rest (Suc i)
       (respProducts[i := \<lparr>dto_Code = prod_Code p,
                            dto_Price = InexactFloat64 (prod_Price p),
                            dto_Category = cat_Name (prod_Category p)\<rparr>],
        if length (prod_Variants p) > 0
        then uniqueProductCount + int (length (prod_Variants p))
        else uniqueProductCount)"

text \<open>The second loop, \<open>for _, variant := range dbProducts[0].Variants\<close>: \<open>variant\<close> is a
  copy, so the input is not changed; the state is \<open>resp.Variants\<close>.\<close>

fun variants_loop :: "Decimal \<Rightarrow> models_Variant list \<Rightarrow> models_Variant list \<Rightarrow> models_Variant list" where
  "variants_loop price [] respVariants = respVariants"
| "variants_loop price (variant # rest) respVariants =
     variants_loop price rest
       (respVariants @
          [if go_eq (var_Price variant) Zero then variant\<lparr>var_Price := price\<rparr> else variant])"

definition prepareResponse ::
  "(Decimal \<Rightarrow> float64) \<Rightarrow> models_Product list \<Rightarrow> bool \<Rightarrow> catalog_Response" where
  "prepareResponse InexactFloat64 dbProducts includeVariants =
     (case products_loop InexactFloat64 dbProducts 0
             (replicate (length dbProducts) catalog_Product_zero_value, 0) of
        (respProducts, uniqueProductCount) \<Rightarrow>
          (let resp = \<lparr>Products = respProducts, ProductsAvailable = uniqueProductCount,
                       Variants = None\<rparr>
           in if includeVariants \<and> length dbProducts > 0
              then resp\<lparr>Variants :=
                     Some (variants_loop (prod_Price (dbProducts ! 0))
                             (prod_Variants (dbProducts ! 0)) [])\<rparr>
              else resp))"

text \<open>The field is declared with the JSON tag \<open>variants,omitempty\<close>: when a response is
  encoded, \<open>encoding/json\<close> writes the field only for a slice of length above 0, so a nil
  slice and an empty one are told apart in the value \<open>prepareResponse\<close> returns and not
  in the encoded body.\<close>

definition variants_field_encoded :: "catalog_Response \<Rightarrow> bool" where
  "variants_field_encoded resp =
     (case Variants resp of None \<Rightarrow> False | Some vs \<Rightarrow> length vs > 0)"

section \<open>The product repository (package products)\<close>

text \<open>
  The relational store behind gorm is outside the program. Its model is the table of
  products in primary-key order, each row as the query's preloads return it, and the
  failure, if any, that the connection answers every query with. \<open>First\<close> returns the
  first row that satisfies the condition, or \<open>gorm.ErrRecordNotFound\<close> when none does.
\<close>

record products_db =
  db_failure :: "error option"
  db_products :: "models_Product list"

definition First_where_code :: "products_db \<Rightarrow> string \<Rightarrow> error + models_Product" where
  "First_where_code db code =
     (case db_failure db of
        Some err \<Rightarrow> Inl err
      | None \<Rightarrow>
          (case find (\<lambda>p. prod_Code p = code) (db_products db) of
             None \<Rightarrow> Inl ErrRecordNotFound
           | Some product \<Rightarrow> Inr product))"

definition GetByCode :: "products_db \<Rightarrow> string \<Rightarrow> models_Product \<times> error option" where
  "GetByCode db code =
     (case First_where_code db code of
        Inl err \<Rightarrow>
          if errors_Is err ErrRecordNotFound then (Product_zero_value, None)
          else (Product_zero_value, Some err)
      | Inr product \<Rightarrow> (product, None))"

section \<open>The catalog handlers\<close>

text \<open>
  Modelled from the spec: \<open>api.OKResponse\<close> and \<open>api.ErrorResponse\<close> (package \<open>app/api\<close> is
  not among the sources). A success answers with status 200 and the payload as its body;
  a failure answers with the status and the message the handler passes.
\<close>

datatype 'a http_response =
    OKResponse 'a
  | ErrorResponse nat string

fun status :: "'a http_response \<Rightarrow> nat" where
  "status (OKResponse payload) = 200"
| "status (ErrorResponse code message) = code"

definition StatusBadRequest :: nat where
  "StatusBadRequest = 400"

definition StatusConflict :: nat where
  "StatusConflict = 409"

definition StatusInternalServerError :: nat where
  "StatusInternalServerError = 500"

text \<open>The interface \<open>products.Repository\<close>, with the two methods the handlers call. A
  handler returns its response together with the repository calls it made, in order.\<close>

record products_Repository =
  repo_List :: "SearchFilters \<Rightarrow> models_Product list \<times> error option"
  repo_GetByCode :: "string \<Rightarrow> models_Product \<times> error option"

datatype products_call =
    Call_List SearchFilters
  | Call_GetByCode string

definition HandleGet ::
  "(Decimal \<Rightarrow> float64) \<Rightarrow> addr \<Rightarrow> products_Repository \<Rightarrow> string \<Rightarrow> string \<Rightarrow> string \<Rightarrow> string
     \<Rightarrow> catalog_Response http_response \<times> products_call list" where
  "HandleGet InexactFloat64 a repo offset limit priceLessThan category =
     (let filters = validateProductFilters a offset limit priceLessThan category
      in case repo_List repo filters of
           (dbProducts, Some err) \<Rightarrow>
             (ErrorResponse StatusInternalServerError (Error err), [Call_List filters])
         | (dbProducts, None) \<Rightarrow>
             (OKResponse (prepareResponse InexactFloat64 dbProducts False), [Call_List filters]))"

definition HandleGetSpecific ::
  "(Decimal \<Rightarrow> float64) \<Rightarrow> products_Repository \<Rightarrow> string
     \<Rightarrow> catalog_Response http_response \<times> products_call list" where
  "HandleGetSpecific InexactFloat64 repo code =
     (if \<not> validateProductCode code then
        (ErrorResponse StatusBadRequest
           ''Invalid product code format. Expected format: PROD followed by 3 digits (e.g., PROD001)'',
         [])
      else
        (case repo_GetByCode repo code of
           (dbProducts, Some err) \<Rightarrow>
             (ErrorResponse StatusInternalServerError (Error err), [Call_GetByCode code])
         | (dbProducts, None) \<Rightarrow>
             (OKResponse (prepareResponse InexactFloat64 [dbProducts] True), [Call_GetByCode code])))"

section \<open>Category creation (package category)\<close>

record CreateRequest =
  req_Code :: string
  req_Name :: string

text \<open>\<open>GormRepo.Create\<close> of the category repository. The outcome of the store's insert
  (\<open>r.db.WithContext(ctx).Create(newCategory).Error\<close>) is a parameter.\<close>

definition Create :: "(models_Category \<Rightarrow> error option) \<Rightarrow> models_Category \<Rightarrow> error option" where
  "Create db_Create newCategory =
     (case db_Create newCategory of
        Some err \<Rightarrow>
          if errors_Is err ErrDuplicatedKey then Some (ErrorNew ''category code already exists'')
          else Some err
      | None \<Rightarrow> None)"

datatype category_call = Call_Create models_Category

text \<open>\<open>HandlePost\<close>. The first argument is the method \<open>Create\<close> of the repository the
  handler holds; the second is what decoding the request body gave (\<open>None\<close> when the
  body is not valid JSON). The ID of the new category is the zero value.\<close>

definition HandlePost ::
  "(models_Category \<Rightarrow> error option) \<Rightarrow> CreateRequest option
     \<Rightarrow> (string \<times> string) list http_response \<times> category_call list" where
  "HandlePost repo_Create decoded =
     (case decoded of
        None \<Rightarrow> (ErrorResponse StatusBadRequest ''Invalid JSON'', [])
      | Some req \<Rightarrow>
          if req_Code req = [] \<or> req_Name req = [] then
            (ErrorResponse StatusBadRequest ''Code and name are required'', [])
          else
            (let newCategory = \<lparr>cat_ID = 0, cat_Code = req_Code req, cat_Name = req_Name req\<rparr>
             in case repo_Create newCategory of
                  Some err \<Rightarrow>
                    if Error err = ''category code already exists''
                    then (ErrorResponse StatusConflict (Error err), [Call_Create newCategory])
                    else (ErrorResponse StatusInternalServerError (Error err),
                          [Call_Create newCategory])
                | None \<Rightarrow>
                    (OKResponse [(''message'', ''Category created successfully'')],
                     [Call_Create newCategory])))"

section \<open>Example data\<close>

text \<open>The values of the handler's tests: the decimals 100.50, 120 and 200.75 as
  \<open>decimal.NewFromString\<close> represents them, each with a \<open>big.Int\<close> of its own, and a
  price of zero as the store's column text \<open>0.00\<close> is parsed.\<close>

definition price_100_50 :: Decimal where
  "price_100_50 = \<lparr>d_value = Some (1, 10050), d_exp = - 2\<rparr>"

definition price_120 :: Decimal where
  "price_120 = \<lparr>d_value = Some (2, 120), d_exp = 0\<rparr>"

definition price_200_75 :: Decimal where
  "price_200_75 = \<lparr>d_value = Some (4, 20075), d_exp = - 2\<rparr>"

definition stored_zero :: Decimal where
  "stored_zero = \<lparr>d_value = Some (3, 0), d_exp = - 2\<rparr>"

definition variant_Medium :: models_Variant where
  "variant_Medium =
     \<lparr>var_ID = 1, var_Name = ''Medium'', var_SKU = ''PROD001-M'', var_Price = Zero,
      var_ProductID = 1\<rparr>"

definition variant_Large :: models_Variant where
  "variant_Large =
     \<lparr>var_ID = 2, var_Name = ''Large'', var_SKU = ''PROD001-L'', var_Price = price_120,
      var_ProductID = 1\<rparr>"

definition product_PROD001 :: models_Product where
  "product_PROD001 =
     \<lparr>prod_ID = 1, prod_Code = ''PROD001'', prod_Price = price_100_50,
      prod_Category = \<lparr>cat_ID = 1, cat_Code = ''clothing'', cat_Name = ''Clothing''\<rparr>,
      prod_Variants = [variant_Medium, variant_Large]\<rparr>"

definition product_PROD002 :: models_Product where
  "product_PROD002 =
     \<lparr>prod_ID = 2, prod_Code = ''PROD002'', prod_Price = price_200_75,
      prod_Category = \<lparr>cat_ID = 2, cat_Code = ''shoes'', cat_Name = ''Shoes''\<rparr>,
      prod_Variants = []\<rparr>"

definition example_db :: products_db where
  "example_db = \<lparr>db_failure = None, db_products = [product_PROD001, product_PROD002]\<rparr>"

section \<open>Facts about the library models\<close>

lemma Atoi_empty: "Atoi [] = None"
  by (simp add: Atoi_def ParseInt_def parse_signed_def)

lemma NewFromString_empty: "NewFromString a [] = None"
  by (simp add: NewFromString_def parse_signed_def)

lemma int_Cmp_1: "int_Cmp x y = 1 \<longleftrightarrow> y < x"
  by (simp add: int_Cmp_def)

lemma int_Cmp_0: "int_Cmp x y = 0 \<longleftrightarrow> x = y"
  by (simp add: int_Cmp_def)

lemma coefficient_Zero: "coefficient Zero = 0"
  by (simp add: coefficient_def Zero_def)

lemma scaled_pos: "0 < (c::int) * 10 ^ k \<longleftrightarrow> 0 < c"
  by (simp add: zero_less_mult_iff)

text \<open>Against \<open>decimal.Zero\<close>, \<open>GreaterThan\<close> and \<open>Equal\<close> read the sign of the number, whatever
  the exponents and addresses are.\<close>

lemma GreaterThan_Zero_iff: "GreaterThan p Zero \<longleftrightarrow> 0 < coefficient p"
  by (simp add: GreaterThan_def Cmp_def int_Cmp_1 coefficient_Zero scaled_pos)

lemma Equal_Zero_iff: "Equal p Zero \<longleftrightarrow> coefficient p = 0"
  by (simp add: Equal_def Cmp_def int_Cmp_0 coefficient_Zero)

lemmas parse_defs =
  Atoi_def ParseInt_def parse_signed_def NewFromString_def is_digit_def digit_val_def is_e_def

section \<open>The product code validator\<close>

lemma ends_pattern:
  "ends pattern s i \<noteq> [] \<longleftrightarrow>
     i = 0 \<and> length s = 7 \<and> s ! 0 = CHR ''P'' \<and> s ! 1 = CHR ''R'' \<and> s ! 2 = CHR ''O''
       \<and> s ! 3 = CHR ''D'' \<and> is_digit (s ! 4) \<and> is_digit (s ! 5) \<and> is_digit (s ! 6)"
  by (auto simp: pattern_def eval_nat_numeral split: if_splits)

lemma list_of_length_7:
  "length s = 7 \<Longrightarrow> s = [s ! 0, s ! 1, s ! 2, s ! 3, s ! 4, s ! 5, s ! 6]"
  by (rule nth_equalityI) (auto simp: nth_Cons' eval_nat_numeral less_Suc_eq)

lemma MatchString_pattern:
  "fst (MatchString pattern s) \<longleftrightarrow>
     (\<exists>d1 d2 d3. is_digit d1 \<and> is_digit d2 \<and> is_digit d3 \<and> s = ''PROD'' @ [d1, d2, d3])"
proof
  assume "fst (MatchString pattern s)"
  then obtain i where "ends pattern s i \<noteq> []"
    by (auto simp: MatchString_def list_ex_iff)
  then have h: "length s = 7" "s ! 0 = CHR ''P''" "s ! 1 = CHR ''R''" "s ! 2 = CHR ''O''"
      "s ! 3 = CHR ''D''" "is_digit (s ! 4)" "is_digit (s ! 5)" "is_digit (s ! 6)"
    by (simp_all add: ends_pattern)
  have "s = [s ! 0, s ! 1, s ! 2, s ! 3, s ! 4, s ! 5, s ! 6]"
    using h(1) by (rule list_of_length_7)
  with h have "s = ''PROD'' @ [s ! 4, s ! 5, s ! 6]" by simp
  with h show "\<exists>d1 d2 d3. is_digit d1 \<and> is_digit d2 \<and> is_digit d3 \<and> s = ''PROD'' @ [d1, d2, d3]"
    by blast
next
  assume "\<exists>d1 d2 d3. is_digit d1 \<and> is_digit d2 \<and> is_digit d3 \<and> s = ''PROD'' @ [d1, d2, d3]"
  then obtain d1 d2 d3
    where d: "is_digit d1" "is_digit d2" "is_digit d3" and s: "s = ''PROD'' @ [d1, d2, d3]"
    by blast
  have "ends pattern s 0 \<noteq> []"
    unfolding ends_pattern using d s by simp
  moreover have "0 \<in> set [0 ..< Suc (length s)]" by simp
  ultimately show "fst (MatchString pattern s)"
    unfolding MatchString_def list_ex_iff fst_conv by blast
qed

lemma MatchString_no_error: "snd (MatchString r s) = None"
  by (simp add: MatchString_def)

lemma validateProductCode_iff:
  "validateProductCode code \<longleftrightarrow>
     (\<exists>d1 d2 d3. is_digit d1 \<and> is_digit d2 \<and> is_digit d3 \<and> code = ''PROD'' @ [d1, d2, d3])"
proof -
  have "validateProductCode code \<longleftrightarrow> code \<noteq> [] \<and> fst (MatchString pattern code)"
    using MatchString_no_error [of pattern code]
    by (cases "MatchString pattern code") (auto simp: validateProductCode_def)
  then show ?thesis
    unfolding MatchString_pattern by auto
qed

text \<open>
  C5. A code is valid if and only if it is the four bytes \<open>PROD\<close> followed by exactly three
  ASCII digits and nothing else: the match is case-sensitive and takes no whitespace or
  other character before, inside or after. So \<open>PROD001\<close> is valid, and \<open>PROD1\<close>,
  \<open>prod001\<close>, the empty string and \<open>PROD12A\<close> are not.
\<close>

theorem validateProductCode_exact:
  "(\<forall>code. validateProductCode code \<longleftrightarrow>
      (\<exists>d1 d2 d3. d1 \<in> set ''0123456789'' \<and> d2 \<in> set ''0123456789'' \<and> d3 \<in> set ''0123456789''
         \<and> code = ''PROD'' @ [d1, d2, d3]))
   \<and> validateProductCode ''PROD001''
   \<and> \<not> validateProductCode ''PROD1''
   \<and> \<not> validateProductCode ''prod001''
   \<and> \<not> validateProductCode ''''
   \<and> \<not> validateProductCode ''PROD12A''
   \<and> \<not> validateProductCode '' PROD001''
   \<and> \<not> validateProductCode ''PROD001 ''"
proof -
  have general: "\<forall>code. validateProductCode code \<longleftrightarrow>
      (\<exists>d1 d2 d3. d1 \<in> set ''0123456789'' \<and> d2 \<in> set ''0123456789'' \<and> d3 \<in> set ''0123456789''
         \<and> code = ''PROD'' @ [d1, d2, d3])"
    using validateProductCode_iff by (simp add: is_digit_def)
  have yes: "validateProductCode ''PROD001''"
    by (simp add: validateProductCode_iff is_digit_def)
  have no1: "\<not> validateProductCode ''PROD1''"
    by (simp add: validateProductCode_iff)
  have no2: "\<not> validateProductCode ''prod001''"
    by (simp add: validateProductCode_iff)
  have no3: "\<not> validateProductCode ''''"
    by (simp add: validateProductCode_iff)
  have no4: "\<not> validateProductCode ''PROD12A''"
    by (simp add: validateProductCode_iff is_digit_def)
  have no5: "\<not> validateProductCode '' PROD001''"
    by (simp add: validateProductCode_iff)
  have no6: "\<not> validateProductCode ''PROD001 ''"
    by (simp add: validateProductCode_iff)
  from general yes no1 no2 no3 no4 no5 no6 show ?thesis by blast
qed

section \<open>The filter validator\<close>

lemma validateProductFilters_eq:
  "validateProductFilters a offset limit priceLimit category =
     \<lparr>Offset = (case Atoi offset of Some n \<Rightarrow> if 0 \<le> n then n else 0 | None \<Rightarrow> 0),
      Limit = (case Atoi limit of Some n \<Rightarrow> if 1 \<le> n \<and> n \<le> 100 then n else 10 | None \<Rightarrow> 10),
      Category = category,
      PriceLessThan =
        (case NewFromString a priceLimit of
           Some p \<Rightarrow> if GreaterThan p Zero then Some p else None
         | None \<Rightarrow> None)\<rparr>"
proof -
  have o: "offset = [] \<Longrightarrow> Atoi offset = None" by (simp add: Atoi_empty)
  have l: "limit = [] \<Longrightarrow> Atoi limit = None" by (simp add: Atoi_empty)
  have p: "priceLimit = [] \<Longrightarrow> NewFromString a priceLimit = None"
    by (simp add: NewFromString_empty)
  show ?thesis
    unfolding validateProductFilters_def Let_def
    using o l p by (auto split: option.splits)
qed

text \<open>
  C4. Filter validation is a total function of its four strings and never fails. Offset
  is the parsed integer when parsing succeeds with a value of at least 0, and 0 otherwise.
  Limit is the parsed integer when parsing succeeds with a value from 1 to 100 (1 and 100
  pass through), and 10 otherwise. PriceLessThan is the parsed decimal itself when parsing
  succeeds and the number is greater than zero, and unset otherwise. Category is the input string, the empty string standing for unset.
\<close>

theorem validateProductFilters_total:
  "validateProductFilters a offset limit priceLimit category =
     \<lparr>Offset = (case Atoi offset of Some n \<Rightarrow> if 0 \<le> n then n else 0 | None \<Rightarrow> 0),
      Limit = (case Atoi limit of Some n \<Rightarrow> if 1 \<le> n \<and> n \<le> 100 then n else 10 | None \<Rightarrow> 10),
      Category = category,
      PriceLessThan =
        (case NewFromString a priceLimit of
           Some p \<Rightarrow> if GreaterThan p Zero then Some p else None
         | None \<Rightarrow> None)\<rparr>
   \<and> Limit (validateProductFilters a offset ''1'' priceLimit category) = 1
   \<and> Limit (validateProductFilters a offset ''100'' priceLimit category) = 100
   \<and> Limit (validateProductFilters a offset ''0'' priceLimit category) = 10
   \<and> Limit (validateProductFilters a offset ''101'' priceLimit category) = 10
   \<and> Offset (validateProductFilters a ''-5'' limit priceLimit category) = 0
   \<and> PriceLessThan (validateProductFilters a offset limit ''99.99'' category)
       = Some \<lparr>d_value = Some (a, 9999), d_exp = - 2\<rparr>
   \<and> PriceLessThan (validateProductFilters a offset limit ''0'' category) = None
   \<and> PriceLessThan (validateProductFilters a offset limit ''-50.00'' category) = None
   \<and> PriceLessThan (validateProductFilters a offset limit ''invalid'' category) = None"
proof -
  have general: "validateProductFilters a offset limit priceLimit category =
     \<lparr>Offset = (case Atoi offset of Some n \<Rightarrow> if 0 \<le> n then n else 0 | None \<Rightarrow> 0),
      Limit = (case Atoi limit of Some n \<Rightarrow> if 1 \<le> n \<and> n \<le> 100 then n else 10 | None \<Rightarrow> 10),
      Category = category,
      PriceLessThan =
        (case NewFromString a priceLimit of
           Some p \<Rightarrow> if GreaterThan p Zero then Some p else None
         | None \<Rightarrow> None)\<rparr>"
    by (rule validateProductFilters_eq)
  have l1: "Limit (validateProductFilters a offset ''1'' priceLimit category) = 1"
    by (simp add: validateProductFilters_eq parse_defs)
  have l100: "Limit (validateProductFilters a offset ''100'' priceLimit category) = 100"
    by (simp add: validateProductFilters_eq parse_defs)
  have l0: "Limit (validateProductFilters a offset ''0'' priceLimit category) = 10"
    by (simp add: validateProductFilters_eq parse_defs)
  have l101: "Limit (validateProductFilters a offset ''101'' priceLimit category) = 10"
    by (simp add: validateProductFilters_eq parse_defs)
  have o: "Offset (validateProductFilters a ''-5'' limit priceLimit category) = 0"
    by (simp add: validateProductFilters_eq parse_defs)
  have p1: "PriceLessThan (validateProductFilters a offset limit ''99.99'' category)
       = Some \<lparr>d_value = Some (a, 9999), d_exp = - 2\<rparr>"
    by (simp add: validateProductFilters_eq parse_defs GreaterThan_Zero_iff coefficient_def)
  have p2: "PriceLessThan (validateProductFilters a offset limit ''0'' category) = None"
    by (simp add: validateProductFilters_eq parse_defs GreaterThan_Zero_iff coefficient_def)
  have p3: "PriceLessThan (validateProductFilters a offset limit ''-50.00'' category) = None"
    by (simp add: validateProductFilters_eq parse_defs GreaterThan_Zero_iff coefficient_def)
  have p4: "PriceLessThan (validateProductFilters a offset limit ''invalid'' category) = None"
    by (simp add: validateProductFilters_eq parse_defs GreaterThan_Zero_iff coefficient_def)
  from general l1 l100 l0 l101 o p1 p2 p3 p4 show ?thesis by blast
qed

section \<open>The response assembler\<close>

text \<open>The first loop fills the slots from \<open>i\<close> on, one per product and in order, and adds
  the lengths of the variant collections to the count.\<close>

lemma products_loop_eq:
  "length respProducts = i + length ps \<Longrightarrow>
   products_loop f ps i (respProducts, n) =
     (take i respProducts @
        map (\<lambda>p. \<lparr>dto_Code = prod_Code p, dto_Price = f (prod_Price p),
                  dto_Category = cat_Name (prod_Category p)\<rparr>) ps,
      n + (\<Sum>p\<leftarrow>ps. int (length (prod_Variants p))))"
proof (induction ps arbitrary: i respProducts n)
  case Nil
  then show ?case by simp
next
  case (Cons p ps)
  let ?d = "\<lparr>dto_Code = prod_Code p, dto_Price = f (prod_Price p),
             dto_Category = cat_Name (prod_Category p)\<rparr>"
  have len: "length (respProducts[i := ?d]) = Suc i + length ps"
    using Cons.prems by simp
  have i: "i < length respProducts"
    using Cons.prems by simp
  have tk: "take (Suc i) (respProducts[i := ?d]) = take i respProducts @ [?d]"
    using i by (simp add: take_Suc_conv_app_nth)
  show ?case
    using Cons.IH [OF len] tk by (simp add: algebra_simps)
qed

lemma variants_loop_eq:
  "variants_loop price vs acc =
     acc @ map (\<lambda>v. if go_eq (var_Price v) Zero then v\<lparr>var_Price := price\<rparr> else v) vs"
  by (induction vs arbitrary: acc) simp_all

lemma prepareResponse_Products:
  "Products (prepareResponse f ps iv) =
     map (\<lambda>p. \<lparr>dto_Code = prod_Code p, dto_Price = f (prod_Price p),
               dto_Category = cat_Name (prod_Category p)\<rparr>) ps"
  by (simp add: prepareResponse_def products_loop_eq Let_def)

lemma prepareResponse_ProductsAvailable:
  "ProductsAvailable (prepareResponse f ps iv) = (\<Sum>p\<leftarrow>ps. int (length (prod_Variants p)))"
  by (simp add: prepareResponse_def products_loop_eq Let_def)

lemma prepareResponse_Variants:
  "Variants (prepareResponse f ps iv) =
     (if iv \<and> ps \<noteq> []
      then Some (map (\<lambda>v. if go_eq (var_Price v) Zero
                           then v\<lparr>var_Price := prod_Price (hd ps)\<rparr> else v)
                   (prod_Variants (hd ps)))
      else None)"
  by (cases ps) (simp_all add: prepareResponse_def products_loop_eq Let_def variants_loop_eq)

lemma prepareResponse_variants_field_encoded:
  "variants_field_encoded (prepareResponse f ps iv)
     \<longleftrightarrow> iv \<and> ps \<noteq> [] \<and> prod_Variants (hd ps) \<noteq> []"
  by (simp add: variants_field_encoded_def prepareResponse_Variants)

lemma prepareResponse_eq:
  "prepareResponse f ps iv =
     \<lparr>Products = Products (prepareResponse f ps iv),
      ProductsAvailable = ProductsAvailable (prepareResponse f ps iv),
      Variants = Variants (prepareResponse f ps iv)\<rparr>"
  by simp

text \<open>
  C1. The claim: a variant whose stored price is zero is emitted with the product's
  price. The code decides with Go's \<open>==\<close> against \<open>decimal.Zero\<close>, which compares the
  address of the \<open>big.Int\<close> and the exponent, not the number. At the input below, the
  price of the variant is the zero that \<open>decimal.NewFromString\<close> reads from \<open>0.00\<close>: it
  is equal to zero as a number (\<open>Equal\<close>), it is not \<open>==\<close> to \<open>decimal.Zero\<close>, and the
  variant is emitted with that zero price on a product priced 100.50. The same holds for
  the zero-valued \<open>Decimal{}\<close>. Only a copy of the variable \<open>decimal.Zero\<close> itself, as
  the tests use, is replaced by the product's price; a price of 120 is emitted unchanged.
\<close>

theorem zero_price_not_inherited:
  "NewFromString 3 ''0.00'' = Some stored_zero
   \<and> Equal stored_zero Zero
   \<and> \<not> go_eq stored_zero Zero
   \<and> Variants (prepareResponse f
        [product_PROD001\<lparr>prod_Variants := [variant_Medium\<lparr>var_Price := stored_zero\<rparr>]\<rparr>] True)
       = Some [variant_Medium\<lparr>var_Price := stored_zero\<rparr>]
   \<and> \<not> Equal stored_zero (prod_Price product_PROD001)
   \<and> Equal Decimal_zero_value Zero
   \<and> Variants (prepareResponse f
        [product_PROD001\<lparr>prod_Variants := [variant_Medium\<lparr>var_Price := Decimal_zero_value\<rparr>]\<rparr>] True)
       = Some [variant_Medium\<lparr>var_Price := Decimal_zero_value\<rparr>]
   \<and> Variants (prepareResponse f [product_PROD001] True)
       = Some [variant_Medium\<lparr>var_Price := price_100_50\<rparr>, variant_Large]"
proof -
  have parsed: "NewFromString 3 ''0.00'' = Some stored_zero"
    by (simp add: parse_defs stored_zero_def)
  have numerically_zero: "Equal stored_zero Zero"
    by (simp add: Equal_Zero_iff coefficient_def stored_zero_def)
  have not_identical: "\<not> go_eq stored_zero Zero"
    by (simp add: go_eq_def stored_zero_def Zero_def Zero_addr_def)
  have emitted: "Variants (prepareResponse f
        [product_PROD001\<lparr>prod_Variants := [variant_Medium\<lparr>var_Price := stored_zero\<rparr>]\<rparr>] True)
       = Some [variant_Medium\<lparr>var_Price := stored_zero\<rparr>]"
    using not_identical by (simp add: prepareResponse_Variants)
  have not_product_price: "\<not> Equal stored_zero (prod_Price product_PROD001)"
    by (simp add: Equal_def Cmp_def int_Cmp_def coefficient_def stored_zero_def
        product_PROD001_def price_100_50_def)
  have unset_zero: "Equal Decimal_zero_value Zero"
    by (simp add: Equal_Zero_iff coefficient_def Decimal_zero_value_def)
  have unset_not_identical: "\<not> go_eq Decimal_zero_value Zero"
    by (simp add: go_eq_def Decimal_zero_value_def Zero_def)
  have unset_emitted: "Variants (prepareResponse f
        [product_PROD001\<lparr>prod_Variants := [variant_Medium\<lparr>var_Price := Decimal_zero_value\<rparr>]\<rparr>] True)
       = Some [variant_Medium\<lparr>var_Price := Decimal_zero_value\<rparr>]"
    using unset_not_identical by (simp add: prepareResponse_Variants)
  have self: "go_eq Zero Zero"
    by (simp add: go_eq_def)
  have large: "\<not> go_eq price_120 Zero"
    by (simp add: go_eq_def price_120_def Zero_def)
  have sentinel: "Variants (prepareResponse f [product_PROD001] True)
       = Some [variant_Medium\<lparr>var_Price := price_100_50\<rparr>, variant_Large]"
    using large self
    by (simp add: prepareResponse_Variants product_PROD001_def variant_Medium_def
        variant_Large_def)
  from parsed numerically_zero not_identical emitted not_product_price unset_zero
    unset_emitted sentinel
  show ?thesis by blast
qed

text \<open>
  C2. With \<open>includeVariants\<close> true and a non-empty list, the response carries the variants
  of the first product, one for one and in order, and nothing of a later product; with
  \<open>includeVariants\<close> false, or an empty list, the field is nil (absent); for one product
  with no variants and \<open>includeVariants\<close> true, the field is an empty collection that is
  not nil. The list handler assembles with \<open>includeVariants\<close> false.
\<close>

theorem variants_of_first_product_only:
  "Variants (prepareResponse f (p # rest) True)
     = Some (map (\<lambda>v. if go_eq (var_Price v) Zero then v\<lparr>var_Price := prod_Price p\<rparr> else v)
          (prod_Variants p))
   \<and> Variants (prepareResponse f (p # rest) True) = Variants (prepareResponse f [p] True)
   \<and> Variants (prepareResponse f ps False) = None
   \<and> Variants (prepareResponse f [] includeVariants) = None
   \<and> Variants (prepareResponse f [p\<lparr>prod_Variants := []\<rparr>] True) = Some []
   \<and> Variants (prepareResponse f [p\<lparr>prod_Variants := []\<rparr>] True) \<noteq> None
   \<and> Variants (prepareResponse f [product_PROD002, product_PROD001] True) = Some []
   \<and> fst (HandleGet f a \<lparr>repo_List = (\<lambda>filters. (ps, None)), repo_GetByCode = get_method\<rparr>
             offset limit priceLessThan category)
       = OKResponse (prepareResponse f ps False)"
  by (simp add: prepareResponse_Variants product_PROD002_def HandleGet_def)

text \<open>
  C6. \<open>ProductsAvailable\<close> is the sum, over all the input products, of the number of
  variants each carries (a product without variants adds 0); for two products with 2 and
  0 variants it is 2.
\<close>

theorem ProductsAvailable_is_sum_of_variant_counts:
  "ProductsAvailable (prepareResponse f ps includeVariants)
     = (\<Sum>p\<leftarrow>ps. int (length (prod_Variants p)))
   \<and> ProductsAvailable
       (prepareResponse f [p1\<lparr>prod_Variants := [v1, v2]\<rparr>, p2\<lparr>prod_Variants := []\<rparr>]
          includeVariants) = 2"
  by (simp add: prepareResponse_ProductsAvailable)

text \<open>
  C10. The \<open>Products\<close> array of the response has the length of the input, and its i-th
  entry is made of the i-th input product: its code, its price as a float, and the name
  of its category. No product is dropped, duplicated or moved.
\<close>

theorem Products_follow_input:
  "length (Products (prepareResponse f ps includeVariants)) = length ps
   \<and> (\<forall>i < length ps.
        Products (prepareResponse f ps includeVariants) ! i
          = \<lparr>dto_Code = prod_Code (ps ! i), dto_Price = f (prod_Price (ps ! i)),
             dto_Category = cat_Name (prod_Category (ps ! i))\<rparr>)"
  by (simp add: prepareResponse_Products)

theorem Products_follow_input_witness:
  "(1::nat) < length [product_PROD001, product_PROD002]
   \<and> (\<forall>f. length (Products (prepareResponse f [product_PROD001, product_PROD002] False)) = 2)
   \<and> (\<forall>f. Products (prepareResponse f [product_PROD001, product_PROD002] False) ! 1
          = \<lparr>dto_Code = ''PROD002'', dto_Price = f price_200_75, dto_Category = ''Shoes''\<rparr>)"
proof -
  have h: "(1::nat) < length [product_PROD001, product_PROD002]" by simp
  have "\<And>f. Products (prepareResponse f [product_PROD001, product_PROD002] False) ! 1
          = \<lparr>dto_Code = ''PROD002'', dto_Price = f price_200_75, dto_Category = ''Shoes''\<rparr>"
    using Products_follow_input [of _ "[product_PROD001, product_PROD002]" False] h
    by (simp add: product_PROD002_def)
  moreover have "\<And>f. length (Products (prepareResponse f [product_PROD001, product_PROD002] False)) = 2"
    using Products_follow_input [of _ "[product_PROD001, product_PROD002]" False] by simp
  ultimately show ?thesis using h by blast
qed

section \<open>The detail handler\<close>

lemma find_absent:
  "\<forall>p \<in> set ps. prod_Code p \<noteq> code \<Longrightarrow> find (\<lambda>p. prod_Code p = code) ps = None"
  by (simp add: find_None_iff)

lemma GetByCode_absent:
  "db_failure db = None \<Longrightarrow> \<forall>p \<in> set (db_products db). prod_Code p \<noteq> code \<Longrightarrow>
   GetByCode db code = (Product_zero_value, None)"
  by (simp add: GetByCode_def First_where_code_def find_absent)

lemma prepareResponse_zero_product:
  "prepareResponse f [Product_zero_value] True =
     \<lparr>Products = [\<lparr>dto_Code = [], dto_Price = f Decimal_zero_value, dto_Category = []\<rparr>],
      ProductsAvailable = 0,
      Variants = Some []\<rparr>"
  by (subst prepareResponse_eq)
     (simp add: prepareResponse_Products prepareResponse_ProductsAvailable
        prepareResponse_Variants Product_zero_value_def)

text \<open>
  C3. For a code that passes the format check, when the store answers and holds no
  product with that code, \<open>GetByCode\<close> returns the zero-valued product and no error, and
  the detail handler succeeds (status 200) after its one repository call: the response
  holds exactly one product entry, with empty code and category and the float of the
  zero-valued price, no available products and an empty variant collection.
\<close>

theorem absent_code_is_success:
  assumes "validateProductCode code"
    and "db_failure db = None"
    and "\<forall>p \<in> set (db_products db). prod_Code p \<noteq> code"
  shows "GetByCode db code = (Product_zero_value, None)
    \<and> HandleGetSpecific f \<lparr>repo_List = list_method, repo_GetByCode = GetByCode db\<rparr> code
        = (OKResponse
             \<lparr>Products = [\<lparr>dto_Code = [], dto_Price = f Decimal_zero_value, dto_Category = []\<rparr>],
              ProductsAvailable = 0,
              Variants = Some []\<rparr>,
           [Call_GetByCode code])
    \<and> status (fst (HandleGetSpecific f \<lparr>repo_List = list_method, repo_GetByCode = GetByCode db\<rparr> code))
        = 200"
proof -
  have found: "GetByCode db code = (Product_zero_value, None)"
    using assms(2,3) by (rule GetByCode_absent)
  have handled: "HandleGetSpecific f \<lparr>repo_List = list_method, repo_GetByCode = GetByCode db\<rparr> code
        = (OKResponse (prepareResponse f [Product_zero_value] True), [Call_GetByCode code])"
    using assms(1) found by (simp add: HandleGetSpecific_def)
  show ?thesis
    using found handled by (simp add: prepareResponse_zero_product)
qed

theorem absent_code_is_success_witness:
  "validateProductCode ''PROD999''
   \<and> db_failure example_db = None
   \<and> map prod_Code (db_products example_db) = [''PROD001'', ''PROD002'']
   \<and> GetByCode example_db ''PROD999'' = (Product_zero_value, None)
   \<and> (\<forall>f list_method.
        HandleGetSpecific f \<lparr>repo_List = list_method, repo_GetByCode = GetByCode example_db\<rparr>
          ''PROD999''
        = (OKResponse
             \<lparr>Products = [\<lparr>dto_Code = [], dto_Price = f Decimal_zero_value, dto_Category = []\<rparr>],
              ProductsAvailable = 0,
              Variants = Some []\<rparr>,
           [Call_GetByCode ''PROD999'']))"
proof -
  have valid: "validateProductCode ''PROD999''"
    by (simp add: validateProductCode_iff is_digit_def)
  have up: "db_failure example_db = None"
    by (simp add: example_db_def)
  have codes: "map prod_Code (db_products example_db) = [''PROD001'', ''PROD002'']"
    by (simp add: example_db_def product_PROD001_def product_PROD002_def)
  have absent: "\<forall>p \<in> set (db_products example_db). prod_Code p \<noteq> ''PROD999''"
    by (simp add: example_db_def product_PROD001_def product_PROD002_def)
  show ?thesis
    using absent_code_is_success [OF valid up absent] valid up codes by simp
qed

text \<open>
  C8. For a code that fails the format check, the detail handler answers with the client
  error 400 and makes no repository call at all: its answer is the same whatever the
  repository is.
\<close>

theorem invalid_code_no_store_access:
  assumes "\<not> validateProductCode code"
  shows "status (fst (HandleGetSpecific f repo code)) = 400
    \<and> snd (HandleGetSpecific f repo code) = []
    \<and> HandleGetSpecific f repo code = HandleGetSpecific f repo' code"
  using assms by (simp add: HandleGetSpecific_def StatusBadRequest_def)

theorem invalid_code_no_store_access_witness:
  "\<not> validateProductCode ''PROD1''
   \<and> (\<forall>f repo. status (fst (HandleGetSpecific f repo ''PROD1'')) = 400)
   \<and> (\<forall>f repo. snd (HandleGetSpecific f repo ''PROD1'') = [])"
proof -
  have invalid: "\<not> validateProductCode ''PROD1''"
    by (simp add: validateProductCode_iff)
  show ?thesis
    using invalid_code_no_store_access [OF invalid] invalid by simp
qed

section \<open>Category creation\<close>

lemma Create_duplicated:
  "db_Create c = Some err \<Longrightarrow> errors_Is err ErrDuplicatedKey \<Longrightarrow>
   Create db_Create c = Some (ErrorNew ''category code already exists'')"
  by (simp add: Create_def)

lemma Create_other:
  "db_Create c = Some err \<Longrightarrow> \<not> errors_Is err ErrDuplicatedKey \<Longrightarrow>
   Create db_Create c = Some err"
  by (simp add: Create_def)

lemma Create_ok: "db_Create c = None \<Longrightarrow> Create db_Create c = None"
  by (simp add: Create_def)

lemma HandlePost_missing_field:
  "req_Code req = [] \<or> req_Name req = [] \<Longrightarrow>
   HandlePost repo_Create (Some req) = (ErrorResponse 400 ''Code and name are required'', [])"
  by (simp add: HandlePost_def StatusBadRequest_def)

lemma HandlePost_delegates:
  "req_Code req \<noteq> [] \<Longrightarrow> req_Name req \<noteq> [] \<Longrightarrow>
   HandlePost repo_Create (Some req) =
     (case repo_Create \<lparr>cat_ID = 0, cat_Code = req_Code req, cat_Name = req_Name req\<rparr> of
        None \<Rightarrow> OKResponse [(''message'', ''Category created successfully'')]
      | Some err \<Rightarrow>
          if Error err = ''category code already exists'' then ErrorResponse 409 (Error err)
          else ErrorResponse 500 (Error err),
      [Call_Create \<lparr>cat_ID = 0, cat_Code = req_Code req, cat_Name = req_Name req\<rparr>])"
  by (simp add: HandlePost_def Let_def StatusConflict_def StatusInternalServerError_def
      split: option.splits)

text \<open>
  C7. Creating a category from a (code, name) pair: when either field is empty the
  handler answers 400 and makes no repository call. Otherwise it calls
  \<open>Repository.Create\<close> once with the category of that code and name. When the store's
  insert fails with \<open>gorm.ErrDuplicatedKey\<close> (a uniqueness violation), \<open>GormRepo.Create\<close>
  turns it into the error \<open>category code already exists\<close> and the handler answers 409
  (Conflict), which no other failure gets: every other failure of the store comes out of
  \<open>GormRepo.Create\<close> unchanged, and the handler answers 500 with its message for every
  repository error that is not that conflict error. A successful insert answers 200.
\<close>

theorem create_category_outcomes:
  "(code = [] \<or> name = [] \<longrightarrow>
      HandlePost repo_Create (Some \<lparr>req_Code = code, req_Name = name\<rparr>)
        = (ErrorResponse 400 ''Code and name are required'', []))
   \<and> (code \<noteq> [] \<and> name \<noteq> [] \<longrightarrow>
        snd (HandlePost repo_Create (Some \<lparr>req_Code = code, req_Name = name\<rparr>))
          = [Call_Create \<lparr>cat_ID = 0, cat_Code = code, cat_Name = name\<rparr>]
        \<and> fst (HandlePost repo_Create (Some \<lparr>req_Code = code, req_Name = name\<rparr>))
          = (case repo_Create \<lparr>cat_ID = 0, cat_Code = code, cat_Name = name\<rparr> of
               None \<Rightarrow> OKResponse [(''message'', ''Category created successfully'')]
             | Some err \<Rightarrow>
                 if Error err = ''category code already exists''
                 then ErrorResponse 409 ''category code already exists''
                 else ErrorResponse 500 (Error err)))
   \<and> (code \<noteq> [] \<and> name \<noteq> []
        \<and> db_Create \<lparr>cat_ID = 0, cat_Code = code, cat_Name = name\<rparr> = Some err
        \<and> errors_Is err ErrDuplicatedKey \<longrightarrow>
        fst (HandlePost (Create db_Create) (Some \<lparr>req_Code = code, req_Name = name\<rparr>))
          = ErrorResponse 409 ''category code already exists'')
   \<and> (db_Create c = Some err \<and> \<not> errors_Is err ErrDuplicatedKey \<longrightarrow>
        Create db_Create c = Some err)
   \<and> (db_Create c = None \<longrightarrow> Create db_Create c = None)"
proof -
  let ?req = "\<lparr>req_Code = code, req_Name = name\<rparr>"
  let ?cat = "\<lparr>cat_ID = 0, cat_Code = code, cat_Name = name\<rparr>"
  have validation: "code = [] \<or> name = [] \<longrightarrow>
      HandlePost repo_Create (Some ?req) = (ErrorResponse 400 ''Code and name are required'', [])"
    using HandlePost_missing_field [of ?req repo_Create] by simp
  have delegation: "code \<noteq> [] \<and> name \<noteq> [] \<longrightarrow>
        snd (HandlePost repo_Create (Some ?req)) = [Call_Create ?cat]
        \<and> fst (HandlePost repo_Create (Some ?req))
          = (case repo_Create ?cat of
               None \<Rightarrow> OKResponse [(''message'', ''Category created successfully'')]
             | Some err \<Rightarrow>
                 if Error err = ''category code already exists''
                 then ErrorResponse 409 ''category code already exists''
                 else ErrorResponse 500 (Error err))"
    using HandlePost_delegates [of ?req repo_Create] by (auto split: option.splits)
  have conflict: "code \<noteq> [] \<and> name \<noteq> [] \<and> db_Create ?cat = Some err
        \<and> errors_Is err ErrDuplicatedKey \<longrightarrow>
        fst (HandlePost (Create db_Create) (Some ?req))
          = ErrorResponse 409 ''category code already exists''"
    using HandlePost_delegates [of ?req "Create db_Create"] Create_duplicated [of db_Create ?cat err]
    by auto
  have other: "db_Create c = Some err \<and> \<not> errors_Is err ErrDuplicatedKey \<longrightarrow>
        Create db_Create c = Some err"
    using Create_other [of db_Create c err] by blast
  have ok: "db_Create c = None \<longrightarrow> Create db_Create c = None"
    using Create_ok [of db_Create c] by blast
  from validation delegation conflict other ok show ?thesis by blast
qed

theorem create_category_outcomes_witness:
  "HandlePost (Create (\<lambda>c. None)) (Some \<lparr>req_Code = [], req_Name = ''Shoes''\<rparr>)
     = (ErrorResponse 400 ''Code and name are required'', [])
   \<and> snd (HandlePost (Create (\<lambda>c. Some (Wrapped ''insert failed'' ErrDuplicatedKey)))
        (Some \<lparr>req_Code = ''shoes'', req_Name = ''Shoes''\<rparr>))
     = [Call_Create \<lparr>cat_ID = 0, cat_Code = ''shoes'', cat_Name = ''Shoes''\<rparr>]
   \<and> fst (HandlePost (Create (\<lambda>c. Some (Wrapped ''insert failed'' ErrDuplicatedKey)))
        (Some \<lparr>req_Code = ''shoes'', req_Name = ''Shoes''\<rparr>))
     = ErrorResponse 409 ''category code already exists''
   \<and> Create (\<lambda>c. Some (ErrorNew ''connection refused''))
        \<lparr>cat_ID = 0, cat_Code = ''shoes'', cat_Name = ''Shoes''\<rparr>
     = Some (ErrorNew ''connection refused'')
   \<and> fst (HandlePost (Create (\<lambda>c. Some (ErrorNew ''connection refused'')))
        (Some \<lparr>req_Code = ''shoes'', req_Name = ''Shoes''\<rparr>))
     = ErrorResponse 500 ''connection refused''
   \<and> fst (HandlePost (Create (\<lambda>c. None)) (Some \<lparr>req_Code = ''shoes'', req_Name = ''Shoes''\<rparr>))
     = OKResponse [(''message'', ''Category created successfully'')]"
proof -
  let ?cat = "\<lparr>cat_ID = 0, cat_Code = ''shoes'', cat_Name = ''Shoes''\<rparr>"
  let ?dup = "\<lambda>c::models_Category. Some (Wrapped ''insert failed'' ErrDuplicatedKey)"
  let ?down = "\<lambda>c::models_Category. Some (ErrorNew ''connection refused'')"
  let ?up = "\<lambda>c::models_Category. (None :: error option)"
  have a: "HandlePost (Create ?up) (Some \<lparr>req_Code = [], req_Name = ''Shoes''\<rparr>)
     = (ErrorResponse 400 ''Code and name are required'', [])"
    using create_category_outcomes
      [where code = "[]" and name = "''Shoes''" and repo_Create = "Create ?up"
         and db_Create = ?up and c = ?cat and err = ErrRecordNotFound]
    by (simp add: Create_def)
  have b: "snd (HandlePost (Create ?dup) (Some \<lparr>req_Code = ''shoes'', req_Name = ''Shoes''\<rparr>))
     = [Call_Create ?cat]"
    using create_category_outcomes
      [where code = "''shoes''" and name = "''Shoes''" and repo_Create = "Create ?dup"
         and db_Create = ?dup and c = ?cat and err = ErrRecordNotFound]
    by (simp add: Create_def)
  have c: "fst (HandlePost (Create ?dup) (Some \<lparr>req_Code = ''shoes'', req_Name = ''Shoes''\<rparr>))
     = ErrorResponse 409 ''category code already exists''"
    using create_category_outcomes
      [where code = "''shoes''" and name = "''Shoes''" and repo_Create = "Create ?dup"
         and db_Create = ?dup and err = "Wrapped ''insert failed'' ErrDuplicatedKey"]
    by (simp add: Create_def)
  have d: "Create ?down ?cat = Some (ErrorNew ''connection refused'')"
    using create_category_outcomes
      [where code = "''shoes''" and name = "''Shoes''" and repo_Create = "Create ?down"
         and db_Create = ?down and c = ?cat and err = "ErrorNew ''connection refused''"]
    by (simp add: Create_def)
  have e: "fst (HandlePost (Create ?down) (Some \<lparr>req_Code = ''shoes'', req_Name = ''Shoes''\<rparr>))
     = ErrorResponse 500 ''connection refused''"
    using create_category_outcomes
      [where code = "''shoes''" and name = "''Shoes''" and repo_Create = "Create ?down"
         and db_Create = ?down and c = ?cat and err = "ErrorNew ''connection refused''"]
    by (simp add: Create_def)
  have f: "fst (HandlePost (Create ?up) (Some \<lparr>req_Code = ''shoes'', req_Name = ''Shoes''\<rparr>))
     = OKResponse [(''message'', ''Category created successfully'')]"
    using create_category_outcomes
      [where code = "''shoes''" and name = "''Shoes''" and repo_Create = "Create ?up"
         and db_Create = ?up and c = ?cat and err = ErrRecordNotFound]
    by (simp add: Create_def)
  from a b c d e f show ?thesis by blast
qed

text \<open>
  C9. When \<open>Repository.Create\<close> returns an error for a request with both fields set, the
  handler answers 409 (Conflict) if and only if the message of the error is exactly
  \<open>category code already exists\<close>, and 500 with the error's message otherwise. An error
  that is, or wraps, \<open>gorm.ErrDuplicatedKey\<close> but carries another message is answered
  with 500.
\<close>

theorem conflict_iff_message:
  assumes "req_Code req \<noteq> []"
    and "req_Name req \<noteq> []"
    and "repo_Create \<lparr>cat_ID = 0, cat_Code = req_Code req, cat_Name = req_Name req\<rparr> = Some err"
  shows "(status (fst (HandlePost repo_Create (Some req))) = 409
            \<longleftrightarrow> Error err = ''category code already exists'')
    \<and> (status (fst (HandlePost repo_Create (Some req))) = 500
            \<longleftrightarrow> Error err \<noteq> ''category code already exists'')
    \<and> fst (HandlePost repo_Create (Some req))
        = ErrorResponse (if Error err = ''category code already exists'' then 409 else 500)
            (Error err)"
  using assms by (simp add: HandlePost_delegates)

theorem conflict_iff_message_witness:
  "fst (HandlePost (\<lambda>c. Some ErrDuplicatedKey) (Some \<lparr>req_Code = ''shoes'', req_Name = ''Shoes''\<rparr>))
     = ErrorResponse 500 ''duplicated key not allowed''
   \<and> errors_Is (Wrapped ''ERROR: duplicate key value violates unique constraint'' ErrDuplicatedKey)
        ErrDuplicatedKey
   \<and> fst (HandlePost
        (\<lambda>c. Some (Wrapped ''ERROR: duplicate key value violates unique constraint'' ErrDuplicatedKey))
        (Some \<lparr>req_Code = ''shoes'', req_Name = ''Shoes''\<rparr>))
     = ErrorResponse 500 ''ERROR: duplicate key value violates unique constraint''
   \<and> status (fst (HandlePost (\<lambda>c. Some (ErrorNew ''category code already exists''))
        (Some \<lparr>req_Code = ''shoes'', req_Name = ''Shoes''\<rparr>))) = 409"
proof -
  let ?req = "\<lparr>req_Code = ''shoes'', req_Name = ''Shoes''\<rparr>"
  have c: "req_Code ?req \<noteq> []" and n: "req_Name ?req \<noteq> []" by simp_all
  have a: "fst (HandlePost (\<lambda>c. Some ErrDuplicatedKey) (Some ?req))
     = ErrorResponse 500 ''duplicated key not allowed''"
    using conflict_iff_message [OF c n, of "\<lambda>c. Some ErrDuplicatedKey" ErrDuplicatedKey]
    by simp
  have b: "fst (HandlePost
        (\<lambda>c. Some (Wrapped ''ERROR: duplicate key value violates unique constraint'' ErrDuplicatedKey))
        (Some ?req))
     = ErrorResponse 500 ''ERROR: duplicate key value violates unique constraint''"
    using conflict_iff_message [OF c n,
        of "\<lambda>c. Some (Wrapped ''ERROR: duplicate key value violates unique constraint'' ErrDuplicatedKey)"
           "Wrapped ''ERROR: duplicate key value violates unique constraint'' ErrDuplicatedKey"]
    by simp
  have d: "status (fst (HandlePost (\<lambda>c. Some (ErrorNew ''category code already exists''))
        (Some ?req))) = 409"
    using conflict_iff_message [OF c n,
        of "\<lambda>c. Some (ErrorNew ''category code already exists'')"
           "ErrorNew ''category code already exists''"]
    by simp
  from a b d show ?thesis by simp
qed

end
